theory Spec2Isabelle
  imports Complex_Main "HOL-Library.Sublist"
begin

section \<open>LiteX IceStorm toolchain driver (litex/build/lattice/icestorm.py)\<close>

text \<open>
  A shallow embedding of the build-pipeline driver for the Lattice iCE40 IceStorm
  toolchain. Python strings are \<open>string\<close>, exceptions are values of the type
  \<open>error\<close>, and a function that may raise returns \<open>error + 'a\<close> with \<open>Inl\<close> for
  the exception.
\<close>

subsection \<open>Numbers\<close>

text \<open>
  A clock period is a Python number, an \<open>int\<close> or a \<open>float\<close>:
  \<^item> \<open>PyInt i\<close> is the int \<open>i\<close>, of any size;
  \<^item> \<open>PyFloat x\<close> is a finite float of the value \<open>x\<close> (the two zeros are
    \<open>PyFloat 0\<close>: they are equal, and dividing by either raises);
  \<^item> \<open>PyInf True\<close> and \<open>PyInf False\<close> are the infinities \<open>inf\<close> and \<open>-inf\<close>;
  \<^item> \<open>PyNaN\<close> is not-a-number.
\<close>

datatype pynum = PyInt int | PyFloat rat | PyInf bool | PyNaN

text \<open>
  An int is converted to a float by rounding to the nearest double, and the conversion
  raises \<open>OverflowError\<close> when the result is beyond the largest double
  \<open>2^1024 - 2^971\<close>, that is from \<open>2^1024 - 2^970\<close> on.
\<close>

definition fits_float :: "int \<Rightarrow> bool" where
  "fits_float i = (abs i < 2 ^ 1024 - 2 ^ 970)"

text \<open>
  \<open>a == b\<close> on numbers: by value, an int and a float are compared exactly, and
  not-a-number is equal to nothing, itself included. \<open>a != b\<close> is its negation.
\<close>

fun py_eq :: "pynum \<Rightarrow> pynum \<Rightarrow> bool" where
  "py_eq (PyInt i) (PyInt j) = (i = j)"
| "py_eq (PyInt i) (PyFloat y) = (of_int i = y)"
| "py_eq (PyFloat x) (PyInt j) = (x = of_int j)"
| "py_eq (PyFloat x) (PyFloat y) = (x = y)"
| "py_eq (PyInf a) (PyInf b) = (a = b)"
| "py_eq a b = False"

definition py_ne :: "pynum \<Rightarrow> pynum \<Rightarrow> bool" where
  "py_ne a b = (\<not> py_eq a b)"

text \<open>
  A number is beyond the float range when it is an int that cannot be converted to a
  float. \<open>1e3/a\<close> and \<open>'{:.2f}'.format(a)\<close> convert an int to a float first, so
  they raise \<open>OverflowError\<close> for such a number.
\<close>

fun beyond_float_range :: "pynum \<Rightarrow> bool" where
  "beyond_float_range (PyInt i) = (\<not> fits_float i)"
| "beyond_float_range a = False"

subsection \<open>Exceptions\<close>

text \<open>
  The Python exception classes that the module raises, directly or through a built-in
  operation.
\<close>

datatype exc_class = ValueError | OSError | IndexError | ZeroDivisionError | KeyError
  | OverflowError

text \<open>
  One constructor per place that raises:
  \<^item> \<open>UnpackMismatch n\<close>: the tuple assignment of \<open>parse_device\<close> got \<open>n\<close> fields
    instead of three;
  \<^item> \<open>UnknownFamily\<close>, \<open>InvalidArchitecture\<close>, \<open>InvalidPackage\<close>: the three
    \<open>raise ValueError\<close> of \<open>parse_device\<close>, with the offending field;
  \<^item> \<open>ClockConflict old new\<close>: the \<open>raise ValueError\<close> of
    \<open>add_period_constraint\<close>, with the stored and the new period;
  \<^item> \<open>FloatOverflow\<close>: the conversion of an int beyond the float range, in
    \<open>1e3/period\<close> and in the \<open>{:.2f}\<close> of the conflict message;
  \<^item> \<open>ToolchainNotFound\<close>, \<open>ScriptFailed\<close>: the two \<open>raise OSError\<close> of
    \<open>_run_script\<close>;
  \<^item> \<open>FileSystemError name\<close>: an exception of \<open>os.makedirs\<close>, \<open>os.getcwd\<close> or
    \<open>os.chdir\<close>, with the name of its class (\<open>FileNotFoundError\<close>,
    \<open>FileExistsError\<close>, \<open>NotADirectoryError\<close>, \<open>PermissionError\<close>, ...), all of
    them subclasses of \<open>OSError\<close>;
  \<^item> \<open>PinIndexError\<close>: \<open>pins[0]\<close> on an empty pin list in \<open>_build_pcf\<close>;
  \<^item> \<open>PeriodZeroDivision\<close>: \<open>1e3/period\<close> with a zero period in
    \<open>_build_pre_pack\<close>;
  \<^item> \<open>FormatKeyError name\<close>, \<open>FormatIndexError\<close>, \<open>FormatValueError\<close>:
    \<open>str.format\<close> on a placeholder that is not among the keyword arguments, on a
    positional placeholder, and on unbalanced braces.
\<close>

datatype error =
    UnpackMismatch nat
  | UnknownFamily string
  | InvalidArchitecture string
  | InvalidPackage string
  | ClockConflict pynum pynum
  | FloatOverflow
  | ToolchainNotFound
  | ScriptFailed
  | FileSystemError string
  | PinIndexError
  | PeriodZeroDivision
  | FormatKeyError string
  | FormatIndexError
  | FormatValueError

fun class_of :: "error \<Rightarrow> exc_class" where
  "class_of (UnpackMismatch n) = ValueError"
| "class_of (UnknownFamily f) = ValueError"
| "class_of (InvalidArchitecture a) = ValueError"
| "class_of (InvalidPackage p) = ValueError"
| "class_of (ClockConflict old new) = ValueError"
| "class_of FloatOverflow = OverflowError"
| "class_of ToolchainNotFound = OSError"
| "class_of ScriptFailed = OSError"
| "class_of (FileSystemError name) = OSError"
| "class_of PinIndexError = IndexError"
| "class_of PeriodZeroDivision = ZeroDivisionError"
| "class_of (FormatKeyError k) = KeyError"
| "class_of FormatIndexError = IndexError"
| "class_of FormatValueError = ValueError"

text \<open>
  The parts of the Python runtime that are left open:
  \<^item> \<open>float_str q\<close>: the text that \<open>str.format\<close> puts for the float nearest to the
    number \<open>q\<close> (the shortest digits that read back as that float, \<open>inf\<close> beyond the
    range);
  \<^item> \<open>int_to_float i\<close>: the value of the float nearest to the int \<open>i\<close>, for an int
    within the float range that has more than 53 bits;
  \<^item> \<open>format_other kw template\<close>: what \<open>template.format(**kw)\<close> does with a
    template that uses more of the format mini-language than the scanner below reads
    (conversions, format specifications, attributes, indices).
\<close>

record python =
  float_str :: "rat \<Rightarrow> string"
  int_to_float :: "int \<Rightarrow> rat"
  format_other :: "(string \<times> string) list \<Rightarrow> string \<Rightarrow> error + string"

text \<open>\<open>float(i)\<close> for an int within the float range: exact up to 53 bits.\<close>

definition py_float :: "python \<Rightarrow> int \<Rightarrow> rat" where
  "py_float py i = (if abs i \<le> 2 ^ 53 then of_int i else int_to_float py i)"

subsection \<open>Strings\<close>

text \<open>
  \<open>str.split(sep)\<close> for a separator of one character: the fields between the
  occurrences of the separator, so a string without the separator gives one field and
  the empty string gives one empty field.
\<close>

fun str_split :: "char \<Rightarrow> string \<Rightarrow> string list" where
  "str_split c [] = [] # []"
| "str_split c (x # xs) =
     (if x = c then [] # str_split c xs
      else (case str_split c xs of
              w # ws \<Rightarrow> (x # w) # ws
            | [] \<Rightarrow> [x] # []))"

text \<open>\<open>sep.join(xs)\<close>.\<close>

fun str_join :: "string \<Rightarrow> string list \<Rightarrow> string" where
  "str_join sep [] = []"
| "str_join sep [x] = x"
| "str_join sep (x # y # ys) = x @ sep @ str_join sep (y # ys)"

text \<open>\<open>str(n)\<close> for an integer: decimal digits, with a minus sign when negative.\<close>

fun str_nat :: "nat \<Rightarrow> string" where
  "str_nat n =
     (if n < 10 then [''0123456789'' ! n]
      else str_nat (n div 10) @ [''0123456789'' ! (n mod 10)])"

declare str_nat.simps [simp del]

definition str_int :: "int \<Rightarrow> string" where
  "str_int i = (if i < 0 then CHR ''-'' # str_nat (nat (- i)) else str_nat (nat i))"

text \<open>The double quote character, as a string.\<close>

definition dq :: string where
  "dq = [CHR 0x22]"

subsection \<open>Keyword formatting\<close>

text \<open>
  \<open>template.format(**kw)\<close> for keyword arguments whose values are already strings.
  The scanner reads the template from left to right. Outside a placeholder, \<open>{{\<close> and
  \<open>}}\<close> stand for one brace, a \<open>{\<close> opens a placeholder and a lone \<open>}\<close> or a
  \<open>{\<close> at the end raises \<open>ValueError\<close>. Inside a placeholder the characters up
  to the next \<open>}\<close> are the field; the end of the template before that raises
  \<open>ValueError\<close>. The field is looked up as soon as it is closed, so the first
  failure from the left is the one raised.

  Fields: the empty field and a field of decimal digits are positional and, with no
  positional argument, raise \<open>IndexError\<close>; every other field without one of the
  characters \<open>{ [ ] . ! :\<close> is the name of a keyword, and raises \<open>KeyError\<close> when it
  is not among the arguments.

  The scanner gives \<open>None\<close> for a template that it does not read: one with a field
  that has a conversion \<open>!r\<close>, a format specification \<open>:spec\<close>, an attribute, an index
  or a nested field (a field with one of the characters above), or a field of more
  than nine digits (where the size of the number decides between \<open>IndexError\<close> and
  \<open>ValueError\<close>). Such a template is given to \<open>format_other\<close> as a whole.
\<close>

definition special_chars :: string where
  "special_chars = ''{[].!:''"

definition digit_chars :: string where
  "digit_chars = ''0123456789''"

definition field_value :: "(string \<times> string) list \<Rightarrow> string \<Rightarrow> (error + string) option" where
  "field_value kw f =
     (if f = [] then Some (Inl FormatIndexError)
      else if list_all (\<lambda>c. c \<in> set digit_chars) f then
        (if length f \<le> 9 then Some (Inl FormatIndexError) else None)
      else (case map_of kw f of
              None \<Rightarrow> Some (Inl (FormatKeyError f))
            | Some v \<Rightarrow> Some (Inr v)))"

text \<open>
  The second argument is \<open>None\<close> outside a placeholder and \<open>Some acc\<close> inside one,
  with \<open>acc\<close> the characters of the field read so far, last one first.
\<close>

fun format_scan ::
  "(string \<times> string) list \<Rightarrow> string option \<Rightarrow> string \<Rightarrow> (error + string) option" where
  "format_scan kw None [] = Some (Inr [])"
| "format_scan kw (Some acc) [] = Some (Inl FormatValueError)"
| "format_scan kw None [c] =
     (if c = CHR ''{'' \<or> c = CHR ''}'' then Some (Inl FormatValueError) else Some (Inr [c]))"
| "format_scan kw None (c # d # ds) =
     (if c = CHR ''{'' then
        (if d = CHR ''{'' then map_option (map_sum id ((#) c)) (format_scan kw None ds)
         else format_scan kw (Some []) (d # ds))
      else if c = CHR ''}'' then
        (if d = CHR ''}'' then map_option (map_sum id ((#) c)) (format_scan kw None ds)
         else Some (Inl FormatValueError))
      else map_option (map_sum id ((#) c)) (format_scan kw None (d # ds)))"
| "format_scan kw (Some acc) (c # cs) =
     (if c = CHR ''}'' then
        (case field_value kw (rev acc) of
           None \<Rightarrow> None
         | Some (Inl e) \<Rightarrow> Some (Inl e)
         | Some (Inr v) \<Rightarrow> map_option (map_sum id ((@) v)) (format_scan kw None cs))
      else if c \<in> set special_chars then None
      else format_scan kw (Some (c # acc)) cs)"

definition format_str :: "python \<Rightarrow> (string \<times> string) list \<Rightarrow> string \<Rightarrow> error + string" where
  "format_str py kw template =
     (case format_scan kw None template of
        Some r \<Rightarrow> r
      | None \<Rightarrow> format_other py kw template)"

subsection \<open>Dictionaries\<close>

text \<open>
  A Python \<open>dict\<close> keeps its keys in the order of their first insertion, and an
  assignment to a key that is present replaces the value in place. The dictionary is an
  association list without repeated keys; lookup is \<open>map_of\<close>.
\<close>

fun dict_set :: "('k \<times> 'v) list \<Rightarrow> 'k \<Rightarrow> 'v \<Rightarrow> ('k \<times> 'v) list" where
  "dict_set [] k v = [(k, v)]"
| "dict_set ((k', v') # d) k v =
     (if k' = k then (k', v) # d else (k', v') # dict_set d k v)"

subsection \<open>Device identifier parser\<close>

text \<open>The dictionary \<open>packages\<close> of \<open>parse_device\<close>, in the order of the source.\<close>

definition packages :: "(string \<times> string list) list" where
  "packages =
    [(''lp384'', [''qn32'', ''cm36'', ''cm49'']),
     (''lp1k'', [''swg16tr'', ''cm36'', ''cm49'', ''cm81'', ''cb81'', ''qn84'', ''cm121'',
                 ''cb121'']),
     (''hx1k'', [''vq100'', ''cb132'', ''tq144'']),
     (''lp8k'', [''cm81'', ''cm81:4k'', ''cm121'', ''cm121:4k'', ''cm225'', ''cm225:4k'']),
     (''hx8k'', [''bg121'', ''bg121:4k'', ''cb132'', ''cb132:4k'', ''cm121'',
                 ''cm121:4k'', ''cm225'', ''cm225:4k'', ''cm81'', ''cm81:4k'',
                 ''ct256'', ''tq144:4k'']),
     (''up3k'', [''sg48'', ''uwg30'']),
     (''up5k'', [''sg48'', ''uwg30'']),
     (''u4k'', [''sg48''])]"

text \<open>The list \<open>["ice40"]\<close> that the family is checked against.\<close>

definition families :: "string list" where
  "families = [''ice40'']"

text \<open>
  \<open>parse_device\<close>: the tuple assignment raises unless the split gives exactly three
  fields; then the family, the architecture and the package are checked in this order.
\<close>

definition parse_device :: "string \<Rightarrow> error + (string \<times> string \<times> string)" where
  "parse_device device =
     (case str_split CHR ''-'' device of
        [family, architecture, package] \<Rightarrow>
          if family \<notin> set families then Inl (UnknownFamily family)
          else (case map_of packages architecture of
                  None \<Rightarrow> Inl (InvalidArchitecture architecture)
                | Some allowed \<Rightarrow>
                    if package \<notin> set allowed then Inl (InvalidPackage package)
                    else Inr (family, architecture, package))
      | parts \<Rightarrow> Inl (UnpackMismatch (length parts)))"

subsection \<open>IO constraints (.pcf)\<close>

text \<open>
  A resolved signal constraint is the tuple \<open>(sig, pins, others, resname)\<close>; the
  emitter reads the name and the pins only, so the type of \<open>others\<close> is left open.
\<close>

type_synonym 'o signal_constraint = "string \<times> string list \<times> 'o \<times> string"

text \<open>
  The loop \<open>for bit, pin in enumerate(pins)\<close>, with \<open>r\<close> the text so far and
  \<open>bitno\<close> the index \<open>bit\<close>.
\<close>

fun pcf_bits :: "string \<Rightarrow> string \<Rightarrow> nat \<Rightarrow> string list \<Rightarrow> string" where
  "pcf_bits r sig bitno [] = r"
| "pcf_bits r sig bitno (pin # pins) =
     pcf_bits (r @ ''set_io '' @ sig @ ''['' @ str_nat bitno @ ''] '' @ pin @ ''\<newline>'') sig
       (Suc bitno) pins"

text \<open>
  The loop over \<open>named_sc\<close>. \<open>pins[0]\<close> raises \<open>IndexError\<close> on an empty list, which
  ends the function with nothing returned.
\<close>

fun pcf_signals :: "string \<Rightarrow> 'o signal_constraint list \<Rightarrow> error + string" where
  "pcf_signals r [] = Inr r"
| "pcf_signals r ((sig, pins, others, resname) # rest) =
     (if length pins > 1 then pcf_signals (pcf_bits r sig 0 pins) rest
      else (case pins of
              [] \<Rightarrow> Inl PinIndexError
            | pin # _ \<Rightarrow> pcf_signals (r @ ''set_io '' @ sig @ '' '' @ pin @ ''\<newline>'') rest))"

text \<open>\<open>_build_pcf\<close>.\<close>

definition build_pcf :: "'o signal_constraint list \<Rightarrow> string list \<Rightarrow> error + string" where
  "build_pcf named_sc named_pc =
     (case pcf_signals [] named_sc of
        Inl e \<Rightarrow> Inl e
      | Inr r \<Rightarrow>
          Inr (if named_pc \<noteq> [] then r @ ''\<newline>'' @ str_join ''\<newline>\<newline>'' named_pc else r))"

subsection \<open>Timing constraints (pre-pack file)\<close>

text \<open>
  \<open>1e3/period\<close> and the text that \<open>str.format\<close> puts for it. An int period is
  converted to a float first, which raises \<open>OverflowError\<close> beyond the float range;
  a zero period, int or float, raises \<open>ZeroDivisionError\<close>; the quotient of two
  floats is the float nearest to the exact quotient, so its text is \<open>float_str\<close> of
  the exact quotient; \<open>1e3/inf\<close> is \<open>0.0\<close>, \<open>1e3/-inf\<close> is \<open>-0.0\<close> and
  \<open>1e3/nan\<close> is \<open>nan\<close>.
\<close>

definition period_quotient :: "python \<Rightarrow> pynum \<Rightarrow> error + string" where
  "period_quotient py period =
     (case period of
        PyInt i \<Rightarrow>
          if \<not> fits_float i then Inl FloatOverflow
          else if i = 0 then Inl PeriodZeroDivision
          else Inr (float_str py (1000 / py_float py i))
      | PyFloat x \<Rightarrow>
          if x = 0 then Inl PeriodZeroDivision else Inr (float_str py (1000 / x))
      | PyInf positive \<Rightarrow> Inr (if positive then ''0.0'' else ''-0.0'')
      | PyNaN \<Rightarrow> Inr ''nan'')"

text \<open>
  The loop of \<open>_build_pre_pack\<close> over the items of the dictionary, in its order, with
  \<open>r\<close> the text so far. \<open>get_name\<close> is the name resolution \<open>vns.get_name\<close>.
\<close>

fun pre_pack_loop ::
  "python \<Rightarrow> ('c \<Rightarrow> string) \<Rightarrow> string \<Rightarrow> ('c \<times> pynum) list \<Rightarrow> error + string" where
  "pre_pack_loop py get_name r [] = Inr r"
| "pre_pack_loop py get_name r ((clk, period) # rest) =
     (case period_quotient py period of
        Inl e \<Rightarrow> Inl e
      | Inr f \<Rightarrow>
          pre_pack_loop py get_name
            (r @ ''ctx.addClock('' @ dq @ get_name clk @ dq @ '', '' @ f @ '')\<newline>'') rest)"

text \<open>\<open>_build_pre_pack\<close>.\<close>

definition build_pre_pack ::
  "python \<Rightarrow> ('c \<Rightarrow> string) \<Rightarrow> ('c \<times> pynum) list \<Rightarrow> error + string" where
  "build_pre_pack py get_name clks = pre_pack_loop py get_name [] clks"

subsection \<open>Platform and host\<close>

text \<open>
  What the module reads of the platform object: the device string, the include search
  paths and the source descriptors \<open>(filename, language, library)\<close>.
\<close>

record platform =
  device :: string
  verilog_include_paths :: "string list"
  sources :: "(string \<times> string \<times> string) list"

text \<open>
  The process state that \<open>build\<close> changes: the working directory, as the path that
  \<open>os.getcwd()\<close> returns for it, and the calls made to the file system and to the
  operating system, in order. A file is recorded with the working directory at the time
  of the call, its name, its contents and the \<open>force_unix\<close> argument of
  \<open>tools.write_to_file\<close> (\<open>None\<close> when the call does not pass it). The write
  helper is a collaborator outside the module and is taken to return.
\<close>

datatype effect =
    Makedirs string string
  | WriteVerilog string string
  | WriteFile string string string "bool option"
  | Spawn string "string list"

record world =
  cwd :: string
  effects :: "effect list"

definition emit :: "effect \<Rightarrow> world \<Rightarrow> world" where
  "emit e w = w\<lparr>effects := effects w @ [e]\<rparr>"

text \<open>
  What the module asks of the machine it runs on: \<open>sys.platform\<close>,
  \<open>tools.get_litex_git_revision()\<close>, \<open>shutil.which\<close>, the exit status of
  \<open>subprocess.call\<close> for a command line, and the file system behind the three
  calls \<open>os.makedirs(path, exist_ok=True)\<close>, \<open>os.getcwd()\<close> and \<open>os.chdir(path)\<close>.
  Each of these three is given for the state in which it is called:
  \<^item> \<open>makedirs_error w path\<close> is the exception that \<open>os.makedirs\<close> raises, if any;
  \<^item> \<open>getcwd_error w\<close> is the exception that \<open>os.getcwd\<close> raises, if any;
  \<^item> \<open>chdir w path\<close> is the exception that \<open>os.chdir\<close> raises, or the working
    directory after the call, as \<open>os.getcwd()\<close> then returns it (resolved by the
    operating system).
\<close>

record host =
  sys_platform :: string
  litex_git_revision :: string
  which :: "string \<Rightarrow> string option"
  subprocess_call :: "string list \<Rightarrow> int"
  makedirs_error :: "world \<Rightarrow> string \<Rightarrow> error option"
  getcwd_error :: "world \<Rightarrow> error option"
  chdir :: "world \<Rightarrow> string \<Rightarrow> error + string"

definition is_windows :: "host \<Rightarrow> bool" where
  "is_windows h = (sys_platform h \<in> set [''win32'', ''cygwin''])"

text \<open>
  \<open>os.makedirs(path, exist_ok=True)\<close>, \<open>os.getcwd()\<close> and \<open>os.chdir(path)\<close>. A call
  that raises leaves the working directory as it is.
\<close>

definition os_makedirs :: "host \<Rightarrow> string \<Rightarrow> world \<Rightarrow> (error + unit) \<times> world" where
  "os_makedirs h path w =
     (case makedirs_error h w path of
        Some e \<Rightarrow> (Inl e, emit (Makedirs (cwd w) path) w)
      | None \<Rightarrow> (Inr (), emit (Makedirs (cwd w) path) w))"

definition os_getcwd :: "host \<Rightarrow> world \<Rightarrow> error + string" where
  "os_getcwd h w = (case getcwd_error h w of Some e \<Rightarrow> Inl e | None \<Rightarrow> Inr (cwd w))"

definition os_chdir :: "host \<Rightarrow> string \<Rightarrow> world \<Rightarrow> (error + unit) \<times> world" where
  "os_chdir h path w =
     (case chdir h w path of
        Inl e \<Rightarrow> (Inl e, w)
      | Inr d \<Rightarrow> (Inr (), w\<lparr>cwd := d\<rparr>))"

definition write_to_file :: "string \<Rightarrow> string \<Rightarrow> bool option \<Rightarrow> world \<Rightarrow> world" where
  "write_to_file filename contents force_unix w =
     emit (WriteFile (cwd w) filename contents force_unix) w"

subsection \<open>Yosys script\<close>

definition yosys_template :: "string list" where
  "yosys_template =
    [''verilog_defaults -push'',
     ''verilog_defaults -add -defer'',
     ''{read_files}'',
     ''verilog_defaults -pop'',
     ''attrmap -tocase keep -imap keep='' @ dq @ ''true'' @ dq @ '' keep=1 -imap keep='' @ dq
        @ ''false'' @ dq @ '' keep=0 -remove keep=0'',
     ''synth_ice40 {synth_opts} -json {build_name}.json -top {build_name} -dsp'']"

text \<open>The loop \<open>for path in platform.verilog_include_paths\<close>.\<close>

fun includes_loop :: "string \<Rightarrow> string list \<Rightarrow> string" where
  "includes_loop includes [] = includes"
| "includes_loop includes (path # paths) = includes_loop (includes @ '' -I'' @ path) paths"

text \<open>The loop \<open>for filename, language, library in platform.sources\<close>.\<close>

fun reads_loop ::
  "string \<Rightarrow> string list \<Rightarrow> (string \<times> string \<times> string) list \<Rightarrow> string list" where
  "reads_loop includes reads [] = reads"
| "reads_loop includes reads ((filename, language, library) # rest) =
     (let language = (if language = ''systemverilog'' then ''verilog -sv'' else language)
      in reads_loop includes (reads @ [''read_'' @ language @ includes @ '' '' @ filename])
           rest)"

text \<open>\<open>_yosys_import_sources\<close>.\<close>

definition yosys_import_sources :: "platform \<Rightarrow> string" where
  "yosys_import_sources p =
     str_join ''\<newline>''
       (reads_loop (includes_loop [] (verilog_include_paths p)) [] (sources p))"

text \<open>The loop of \<open>_build_yosys\<close>, with \<open>ys\<close> the lines so far.\<close>

fun yosys_loop ::
  "python \<Rightarrow> (string \<times> string) list \<Rightarrow> string list \<Rightarrow> string list \<Rightarrow> error + string list" where
  "yosys_loop py kw ys [] = Inr ys"
| "yosys_loop py kw ys (l # rest) =
     (case format_str py kw l of
        Inl e \<Rightarrow> Inl e
      | Inr line \<Rightarrow> yosys_loop py kw (ys @ [line]) rest)"

text \<open>\<open>_build_yosys\<close>.\<close>

definition build_yosys ::
  "python \<Rightarrow> string list \<Rightarrow> platform \<Rightarrow> string \<Rightarrow> string \<Rightarrow> world \<Rightarrow> (error + unit) \<times> world" where
  "build_yosys py template p build_name synth_opts w =
     (case yosys_loop py
             [(''build_name'', build_name),
              (''read_files'', yosys_import_sources p),
              (''synth_opts'', synth_opts)] [] template of
        Inl e \<Rightarrow> (Inl e, w)
      | Inr ys \<Rightarrow>
          (Inr (), write_to_file (build_name @ ''.ys'') (str_join ''\<newline>'' ys) None w))"

subsection \<open>Build script\<close>

text \<open>
  \<open>_build_template\<close>. The backslash at the end of the first source line of the second
  entry continues the string literal, so that entry is one line, with the indentation
  of the continuation line inside it.
\<close>

definition build_template_default :: "string list" where
  "build_template_default =
    [''yosys -l {build_name}.rpt {build_name}.ys'',
     ''nextpnr-ice40 --json {build_name}.json --pcf {build_name}.pcf --asc {build_name}.txt ''
       @ ''    --pre-pack {build_name}_pre_pack.py --{architecture} --package {package} ''
       @ ''{timefailarg} {ignoreloops} --seed {seed}'',
     ''icepack -s {build_name}.txt {build_name}.bin'']"

text \<open>The keyword arguments of the \<open>format\<close> call in \<open>_build_script\<close>.\<close>

definition script_kw ::
  "string \<Rightarrow> string \<Rightarrow> string \<Rightarrow> bool \<Rightarrow> bool \<Rightarrow> string \<Rightarrow> int \<Rightarrow> (string \<times> string) list" where
  "script_kw build_name architecture package timingstrict ignoreloops fail seed =
    [(''build_name'', build_name),
     (''architecture'', architecture),
     (''package'', package),
     (''timefailarg'', if \<not> timingstrict then ''--timing-allow-fail'' else []),
     (''ignoreloops'', if ignoreloops then ''--ignore-loops'' else []),
     (''fail_stmt'', fail),
     (''seed'', str_int seed)]"

text \<open>The loop \<open>for s in build_template\<close>, with the script text so far.\<close>

fun script_loop ::
  "python \<Rightarrow> (string \<times> string) list \<Rightarrow> string \<Rightarrow> string list \<Rightarrow> error + string" where
  "script_loop py kw script_contents [] = Inr script_contents"
| "script_loop py kw script_contents (s # rest) =
     (case format_str py kw (s @ ''{fail_stmt}\<newline>'') of
        Inl e \<Rightarrow> Inl e
      | Inr line \<Rightarrow> script_loop py kw (script_contents @ line) rest)"

text \<open>The three values chosen by the test on \<open>sys.platform\<close>.\<close>

definition script_ext :: "host \<Rightarrow> string" where
  "script_ext h = (if is_windows h then ''.bat'' else ''.sh'')"

definition script_header :: "host \<Rightarrow> string" where
  "script_header h =
     (if is_windows h then
        ''@echo off\<newline>rem Autogenerated by LiteX / git: '' @ litex_git_revision h
          @ ''\<newline>\<newline>''
      else
        ''# Autogenerated by LiteX / git: '' @ litex_git_revision h @ ''\<newline>set -e\<newline>'')"

definition fail_stmt :: "host \<Rightarrow> string" where
  "fail_stmt h = (if is_windows h then '' || exit /b'' else [])"

text \<open>\<open>_build_script\<close>.\<close>

definition build_script ::
  "python \<Rightarrow> host \<Rightarrow> string list \<Rightarrow> string \<Rightarrow> string \<Rightarrow> string \<Rightarrow> bool \<Rightarrow> bool \<Rightarrow> int \<Rightarrow> world
     \<Rightarrow> (error + string) \<times> world" where
  "build_script py h build_template build_name architecture package timingstrict
     ignoreloops seed w =
     (case script_loop py
             (script_kw build_name architecture package timingstrict ignoreloops
                (fail_stmt h) seed)
             (script_header h) build_template of
        Inl e \<Rightarrow> (Inl e, w)
      | Inr script_contents \<Rightarrow>
          (let script_file = ''build_'' @ build_name @ script_ext h
           in (Inr script_file, write_to_file script_file script_contents (Some False) w)))"

text \<open>\<open>_run_script\<close>.\<close>

definition run_script :: "host \<Rightarrow> string \<Rightarrow> world \<Rightarrow> (error + unit) \<times> world" where
  "run_script h script w =
     (let shell = (if is_windows h then [''cmd'', ''/c''] else [''bash''])
      in if which h ''yosys'' = None \<or> which h ''nextpnr-ice40'' = None then
           (Inl ToolchainNotFound, w)
         else
           (let w' = emit (Spawn (cwd w) (shell @ [script])) w
            in if subprocess_call h (shell @ [script]) \<noteq> 0 then (Inl ScriptFailed, w')
               else (Inr (), w')))"

subsection \<open>The toolchain object\<close>

text \<open>
  The fields of \<open>LatticeIceStormToolchain\<close>, and next to them the attribute sets of the
  clock signals, which \<open>add_period_constraint\<close> changes. A signal is a value of the
  type \<open>'c\<close>.
\<close>

record 'c toolchain =
  toolchain_yosys_template :: "string list"
  toolchain_build_template :: "string list"
  clocks :: "('c \<times> pynum) list"
  attr :: "'c \<Rightarrow> string set"

text \<open>\<open>__init__\<close>, for signals with the attribute sets \<open>a\<close>.\<close>

definition init_toolchain :: "('c \<Rightarrow> string set) \<Rightarrow> 'c toolchain" where
  "init_toolchain a =
     \<lparr>toolchain_yosys_template = yosys_template,
      toolchain_build_template = build_template_default,
      clocks = [],
      attr = a\<rparr>"

text \<open>
  The exception of the \<open>raise\<close> statement of \<open>add_period_constraint\<close>: the message is
  formatted first, with \<open>{:.2f}\<close> for the stored and for the new period, and this
  raises \<open>OverflowError\<close> when one of them is an int beyond the float range; otherwise
  the \<open>ValueError\<close> is raised.
\<close>

definition conflict_error :: "pynum \<Rightarrow> pynum \<Rightarrow> error" where
  "conflict_error old period =
     (if beyond_float_range old \<or> beyond_float_range period then FloatOverflow
      else ClockConflict old period)"

text \<open>
  \<open>add_period_constraint\<close> (its \<open>platform\<close> argument is not used). The result is the
  exception, if one is raised, and the state the call leaves behind.
\<close>

definition add_period_constraint ::
  "'c toolchain \<Rightarrow> 'c \<Rightarrow> pynum \<Rightarrow> error option \<times> 'c toolchain" where
  "add_period_constraint self clk period =
     (let self1 = self\<lparr>attr := (attr self)(clk := insert ''keep'' (attr self clk))\<rparr>
      in case map_of (clocks self1) clk of
           Some old \<Rightarrow>
             if py_ne period old then (Some (conflict_error old period), self1)
             else (None, self1\<lparr>clocks := dict_set (clocks self1) clk period\<rparr>)
         | None \<Rightarrow> (None, self1\<lparr>clocks := dict_set (clocks self1) clk period\<rparr>))"

subsection \<open>The build\<close>

text \<open>
  What the elaboration gives back to \<open>build\<close>: the name resolution \<open>v_output.ns\<close>
  (here the function \<open>get_name\<close> itself), the two results of
  \<open>platform.resolve_signals\<close>, and the effect of \<open>platform.add_source\<close> on the source
  list. These calls are taken not to raise.
\<close>

record ('c, 'o) elaboration =
  ns :: "'c \<Rightarrow> string"
  named_sc :: "'o signal_constraint list"
  named_pc :: "string list"
  add_source :: "string \<Rightarrow> (string \<times> string \<times> string) list \<Rightarrow> (string \<times> string \<times> string) list"

text \<open>
  The first three statements of \<open>build\<close>: create the build directory, read the
  working directory, change to the build directory. The result is the saved working
  directory.
\<close>

definition enter_build_dir :: "host \<Rightarrow> string \<Rightarrow> world \<Rightarrow> (error + string) \<times> world" where
  "enter_build_dir h build_dir w =
     (case os_makedirs h build_dir w of
        (Inl e, w1) \<Rightarrow> (Inl e, w1)
      | (Inr u, w1) \<Rightarrow>
     (case os_getcwd h w1 of
        Inl e \<Rightarrow> (Inl e, w1)
      | Inr saved \<Rightarrow>
     (case os_chdir h build_dir w1 of
        (Inl e, w2) \<Rightarrow> (Inl e, w2)
      | (Inr u, w2) \<Rightarrow> (Inr saved, w2))))"

text \<open>
  \<open>build\<close>, statement by statement. An exception leaves the function at once with the
  world as it is at that point; only the last step, reached when nothing was raised,
  changes to the saved working directory.
\<close>

definition build ::
  "python \<Rightarrow> host \<Rightarrow> 'c toolchain \<Rightarrow> platform \<Rightarrow> ('c, 'o) elaboration
     \<Rightarrow> string \<Rightarrow> string \<Rightarrow> string \<Rightarrow> bool \<Rightarrow> bool \<Rightarrow> bool \<Rightarrow> int \<Rightarrow> world
     \<Rightarrow> (error + ('c \<Rightarrow> string)) \<times> world" where
  "build py h self p v build_dir build_name synth_opts run timingstrict ignoreloops
     seed w =
     (case enter_build_dir h build_dir w of
        (Inl e, w2) \<Rightarrow> (Inl e, w2)
      | (Inr saved, w2) \<Rightarrow>
     (let v_file = build_name @ ''.v'';
          w3 = emit (WriteVerilog (cwd w2) v_file) w2;
          p1 = p\<lparr>sources := add_source v v_file (sources p)\<rparr>
      in case build_pcf (named_sc v) (named_pc v) of
           Inl e \<Rightarrow> (Inl e, w3)
         | Inr pcf \<Rightarrow>
        (let w4 = write_to_file (build_name @ ''.pcf'') pcf None w3
         in case build_pre_pack py (ns v) (clocks self) of
              Inl e \<Rightarrow> (Inl e, w4)
            | Inr pre_pack \<Rightarrow>
        (let w5 = write_to_file (build_name @ ''_pre_pack.py'') pre_pack None w4
         in case build_yosys py (toolchain_yosys_template self) p1 build_name synth_opts w5 of
              (Inl e, w6) \<Rightarrow> (Inl e, w6)
            | (Inr u, w6) \<Rightarrow>
        (case parse_device (device p1) of
           Inl e \<Rightarrow> (Inl e, w6)
         | Inr (family, architecture, package) \<Rightarrow>
        (case build_script py h (toolchain_build_template self) build_name architecture
                package timingstrict ignoreloops seed w6 of
           (Inl e, w7) \<Rightarrow> (Inl e, w7)
         | (Inr script, w7) \<Rightarrow>
        (case (if run then run_script h script w7 else (Inr (), w7)) of
           (Inl e, w8) \<Rightarrow> (Inl e, w8)
         | (Inr u, w8) \<Rightarrow>
        (case os_chdir h saved w8 of
           (Inl e, w9) \<Rightarrow> (Inl e, w9)
         | (Inr u, w9) \<Rightarrow> (Inr (ns v), w9)))))))))"

subsection \<open>Reference texts\<close>

text \<open>
  The lines that the specification gives for one signal constraint: for more than one
  pin, one indexed line per pin, with the indices \<open>0, 1, ...\<close> in the order of the
  pins; otherwise one unindexed line per pin, which is one line for one pin.
\<close>

definition signal_lines :: "'o signal_constraint \<Rightarrow> string list" where
  "signal_lines sc =
     (case sc of (sig, pins, others, resname) \<Rightarrow>
        if length pins > 1 then
          map (\<lambda>i. ''set_io '' @ sig @ ''['' @ str_nat i @ ''] '' @ pins ! i) [0..<length pins]
        else map (\<lambda>pin. ''set_io '' @ sig @ '' '' @ pin) pins)"

text \<open>
  The text of \<open>1000 / period\<close> for a period that can be divided by: for a finite
  period the text of the float nearest to the quotient, for an infinite one a zero,
  for not-a-number \<open>nan\<close>.
\<close>

definition quotient_text :: "python \<Rightarrow> pynum \<Rightarrow> string" where
  "quotient_text py period =
     (case period of
        PyInt i \<Rightarrow> float_str py (1000 / py_float py i)
      | PyFloat x \<Rightarrow> float_str py (1000 / x)
      | PyInf positive \<Rightarrow> (if positive then ''0.0'' else ''-0.0'')
      | PyNaN \<Rightarrow> ''nan'')"

text \<open>The line that the specification gives for one constrained clock.\<close>

definition clock_line :: "python \<Rightarrow> ('c \<Rightarrow> string) \<Rightarrow> 'c \<times> pynum \<Rightarrow> string" where
  "clock_line py get_name item =
     ''ctx.addClock('' @ dq @ get_name (fst item) @ dq @ '', ''
       @ quotient_text py (snd item) @ '')''"

text \<open>The directive that the specification gives for one source descriptor.\<close>

definition read_directive :: "string list \<Rightarrow> string \<times> string \<times> string \<Rightarrow> string" where
  "read_directive include_paths src =
     (case src of (filename, language, library) \<Rightarrow>
        ''read_'' @ (if language = ''systemverilog'' then ''verilog -sv'' else language)
          @ concat (map (\<lambda>path. '' -I'' @ path) include_paths) @ '' '' @ filename)"



subsection \<open>Example values\<close>

text \<open>
  How Python prints a float whose value is a whole number of less than seventeen
  digits: the digits, then \<open>.0\<close>. It stands for \<open>float_str\<close> in the examples, whose
  quotients are such numbers.
\<close>

definition whole_float_str :: "rat \<Rightarrow> string" where
  "whole_float_str q = str_int \<lfloor>q\<rfloor> @ ''.0''"

text \<open>
  A field with an empty format specification, \<open>{name:}\<close>, is formatted as
  \<open>{name}\<close>. \<open>drop_empty_spec\<close> takes the colon out of every \<open>:}\<close>, and
  \<open>format_empty_spec\<close> formats what is left. It stands for \<open>format_other\<close> in the
  examples, whose templates use nothing else of the format mini-language (it gives
  \<open>ValueError\<close> for a template that is still not read).
\<close>

fun drop_empty_spec :: "string \<Rightarrow> string" where
  "drop_empty_spec (c # d # ds) =
     (if c = CHR '':'' \<and> d = CHR ''}'' then d # drop_empty_spec ds
      else c # drop_empty_spec (d # ds))"
| "drop_empty_spec cs = cs"

definition format_empty_spec :: "(string \<times> string) list \<Rightarrow> string \<Rightarrow> error + string" where
  "format_empty_spec kw template =
     (case format_scan kw None (drop_empty_spec template) of
        Some r \<Rightarrow> r
      | None \<Rightarrow> Inl FormatValueError)"

definition demo_python :: python where
  "demo_python =
     \<lparr>float_str = whole_float_str,
      int_to_float = of_int,
      format_other = format_empty_spec\<rparr>"

text \<open>
  A file system for the examples: every non-empty path is a directory that can be
  created and entered, a path that starts with a slash is absolute and names itself,
  and another path is taken from the working directory; the empty path raises
  \<open>FileNotFoundError\<close>.
\<close>

definition posix_host :: host where
  "posix_host =
     \<lparr>sys_platform = ''linux'',
      litex_git_revision = ''0123abc'',
      which = (\<lambda>tool. Some (''/usr/bin/'' @ tool)),
      subprocess_call = (\<lambda>argv. 0),
      makedirs_error =
        (\<lambda>w path. if path = [] then Some (FileSystemError ''FileNotFoundError'') else None),
      getcwd_error = (\<lambda>w. None),
      chdir =
        (\<lambda>w path.
           if path = [] then Inl (FileSystemError ''FileNotFoundError'')
           else if hd path = CHR ''/'' then Inr path
           else Inr (cwd w @ ''/'' @ path))\<rparr>"

definition windows_host :: host where
  "windows_host = posix_host\<lparr>sys_platform := ''win32''\<rparr>"

definition host_without_tools :: host where
  "host_without_tools = posix_host\<lparr>which := (\<lambda>tool. None)\<rparr>"

definition host_failing_script :: host where
  "host_failing_script = posix_host\<lparr>subprocess_call := (\<lambda>argv. 1)\<rparr>"

definition demo_platform :: platform where
  "demo_platform =
     \<lparr>device = ''ice40-up5k-sg48'', verilog_include_paths = [], sources = []\<rparr>"

definition demo_elaboration :: "(string, unit) elaboration" where
  "demo_elaboration =
     \<lparr>ns = id,
      named_sc = [(''led'', [''A1''], (), ''user_led'')],
      named_pc = [],
      add_source = (\<lambda>filename srcs. srcs @ [(filename, ''verilog'', ''work'')])\<rparr>"

definition new_toolchain :: "string toolchain" where
  "new_toolchain = init_toolchain (\<lambda>clk. {})"

definition demo_toolchain :: "string toolchain" where
  "demo_toolchain = new_toolchain\<lparr>clocks := [(''sys_clk'', PyFloat 10)]\<rparr>"

definition demo_world :: world where
  "demo_world = \<lparr>cwd = ''/home/user'', effects = []\<rparr>"


section \<open>Properties\<close>

subsection \<open>Device identifier parser\<close>

lemma str_split_no_sep: "c \<notin> set s \<Longrightarrow> str_split c s = [s]"
  by (induction s) auto

lemma str_split_sep: "c \<notin> set a \<Longrightarrow> str_split c (a @ c # b) = a # str_split c b"
  by (induction a) auto

lemma str_split_three:
  "c \<notin> set f \<Longrightarrow> c \<notin> set a \<Longrightarrow> c \<notin> set p \<Longrightarrow>
   str_split c (f @ [c] @ a @ [c] @ p) = [f, a, p]"
  by (simp add: str_split_sep str_split_no_sep)

lemma families_no_hyphen: "f \<in> set families \<Longrightarrow> CHR ''-'' \<notin> set f"
  by (auto simp: families_def)

lemma packages_keys_no_hyphen: "map_of packages a = Some al \<Longrightarrow> CHR ''-'' \<notin> set a"
  by (auto simp: packages_def split: if_splits)

lemma packages_vals_no_hyphen:
  "map_of packages a = Some al \<Longrightarrow> p \<in> set al \<Longrightarrow> CHR ''-'' \<notin> set p"
  by (auto simp: packages_def split: if_splits)

text \<open>
  Claim C2. A device string \<open>family-architecture-package\<close> whose family is supported,
  whose architecture is a key of the package table and whose package is in the list of
  that architecture is returned as the triple of its three fields, unchanged. A string
  whose split at the hyphens does not give three fields, or whose family, architecture
  or package is unknown, makes \<open>parse_device\<close> raise \<open>ValueError\<close> (the validation
  error of the specification).
\<close>

theorem parse_device_correct:
  "(family \<in> set families \<and> map_of packages architecture = Some allowed
      \<and> package \<in> set allowed
      \<longrightarrow> parse_device (family @ ''-'' @ architecture @ ''-'' @ package)
            = Inr (family, architecture, package))
   \<and> ((length (str_split CHR ''-'' dev) \<noteq> 3
        \<or> (\<exists>f a p. str_split CHR ''-'' dev = [f, a, p]
              \<and> (f \<notin> set families \<or> map_of packages a = None
                   \<or> (\<exists>al. map_of packages a = Some al \<and> p \<notin> set al))))
      \<longrightarrow> (\<exists>e. parse_device dev = Inl e \<and> class_of e = ValueError))"
proof (intro conjI impI)
  assume v: "family \<in> set families \<and> map_of packages architecture = Some allowed
    \<and> package \<in> set allowed"
  have f: "CHR ''-'' \<notin> set family" using v by (simp add: families_no_hyphen)
  have a: "CHR ''-'' \<notin> set architecture" using v packages_keys_no_hyphen by blast
  have p: "CHR ''-'' \<notin> set package" using v packages_vals_no_hyphen by blast
  have "str_split CHR ''-'' (family @ ''-'' @ architecture @ ''-'' @ package)
      = [family, architecture, package]"
    using str_split_three[OF f a p] by simp
  with v show "parse_device (family @ ''-'' @ architecture @ ''-'' @ package)
            = Inr (family, architecture, package)"
    by (simp add: parse_device_def)
next
  assume "length (str_split CHR ''-'' dev) \<noteq> 3
        \<or> (\<exists>f a p. str_split CHR ''-'' dev = [f, a, p]
              \<and> (f \<notin> set families \<or> map_of packages a = None
                   \<or> (\<exists>al. map_of packages a = Some al \<and> p \<notin> set al)))"
  then show "\<exists>e. parse_device dev = Inl e \<and> class_of e = ValueError"
    by (auto simp: parse_device_def split: list.splits option.splits)
qed

theorem parse_device_correct_witness:
  "parse_device ''ice40-up5k-sg48'' = Inr (''ice40'', ''up5k'', ''sg48'')
   \<and> (\<exists>e. parse_device ''ice40-up5k'' = Inl e \<and> class_of e = ValueError)"
  using parse_device_correct[of "''ice40''" "''up5k''" "[''sg48'', ''uwg30'']" "''sg48''"
      "''ice40-up5k''"]
  by (simp add: families_def packages_def)

subsection \<open>Clock constraints\<close>

lemma dict_set_same: "map_of d k = Some v \<Longrightarrow> dict_set d k v = d"
  by (induction d) (auto split: if_splits)


lemma keys_dict_set:
  "map fst (dict_set d k v) = (if map_of d k = None then map fst d @ [k] else map fst d)"
  by (induction d) auto








text \<open>
  Claim C10. \<open>add_period_constraint\<close> puts \<open>keep\<close> into the attribute set of the clock
  signal before it looks at the period: after every call the attribute is there, and
  when the call raises for a period that differs from the stored one the clock
  dictionary is as before while the attribute set of the signal is the old one with
  \<open>keep\<close> added. The exception is the conflict error when neither period is an int
  beyond the float range.
\<close>

theorem add_period_constraint_keep_not_rolled_back:
  "''keep'' \<in> attr (snd (add_period_constraint self clk period)) clk
   \<and> (map_of (clocks self) clk = Some old \<and> py_ne period old \<longrightarrow>
        fst (add_period_constraint self clk period) = Some (conflict_error old period)
        \<and> (\<not> beyond_float_range old \<and> \<not> beyond_float_range period \<longrightarrow>
             fst (add_period_constraint self clk period) = Some (ClockConflict old period))
        \<and> clocks (snd (add_period_constraint self clk period)) = clocks self
        \<and> attr (snd (add_period_constraint self clk period))
            = (attr self)(clk := insert ''keep'' (attr self clk)))"
  by (auto simp: add_period_constraint_def conflict_error_def Let_def split: option.splits)

theorem add_period_constraint_keep_not_rolled_back_witness:
  "map_of (clocks demo_toolchain) ''sys_clk'' = Some (PyFloat 10)
   \<and> py_ne (PyFloat 20) (PyFloat 10)
   \<and> ''keep'' \<notin> attr demo_toolchain ''sys_clk''
   \<and> fst (add_period_constraint demo_toolchain ''sys_clk'' (PyFloat 20))
       = Some (ClockConflict (PyFloat 10) (PyFloat 20))
   \<and> clocks (snd (add_period_constraint demo_toolchain ''sys_clk'' (PyFloat 20)))
       = clocks demo_toolchain
   \<and> ''keep'' \<in> attr (snd (add_period_constraint demo_toolchain ''sys_clk'' (PyFloat 20)))
                  ''sys_clk''"
  using add_period_constraint_keep_not_rolled_back[of demo_toolchain "''sys_clk''"
      "PyFloat 20" "PyFloat 10"]
  by (simp add: demo_toolchain_def new_toolchain_def init_toolchain_def py_ne_def
      conflict_error_def)

subsection \<open>Source import block\<close>

lemma includes_loop_eq:
  "includes_loop inc paths = inc @ concat (map (\<lambda>path. '' -I'' @ path) paths)"
  by (induction paths arbitrary: inc) auto

lemma reads_loop_eq:
  "reads_loop inc reads srcs =
     reads @ map (\<lambda>(filename, language, library).
                ''read_'' @ (if language = ''systemverilog'' then ''verilog -sv'' else language)
                  @ inc @ '' '' @ filename) srcs"
  by (induction srcs arbitrary: reads) (auto simp: Let_def)

text \<open>
  Claim C8. The source import block is the directives of the source descriptors, one
  per source file and in their order, joined by newlines; each directive is
  \<open>read_\<close> and the language, then \<open>-I\<close> and the path for every include search path in
  order, then the file name; the language \<open>systemverilog\<close> is replaced by
  \<open>verilog -sv\<close> and every other language is taken as it is.
\<close>

theorem yosys_import_sources_directives:
  "yosys_import_sources p =
     str_join ''\<newline>'' (map (read_directive (verilog_include_paths p)) (sources p))
   \<and> length (map (read_directive (verilog_include_paths p)) (sources p))
       = length (sources p)
   \<and> read_directive paths (filename, ''systemverilog'', library)
       = ''read_verilog -sv'' @ concat (map (\<lambda>path. '' -I'' @ path) paths) @ '' '' @ filename
   \<and> (language \<noteq> ''systemverilog'' \<longrightarrow>
        read_directive paths (filename, language, library)
          = ''read_'' @ language @ concat (map (\<lambda>path. '' -I'' @ path) paths) @ '' ''
              @ filename)"
proof -
  have "(\<lambda>(filename, language, library).
           ''read_'' @ (if language = ''systemverilog'' then ''verilog -sv'' else language)
             @ concat (map (\<lambda>path. '' -I'' @ path) (verilog_include_paths p)) @ '' ''
             @ filename) = read_directive (verilog_include_paths p)"
    by (auto simp: read_directive_def fun_eq_iff)
  then have "yosys_import_sources p =
     str_join ''\<newline>'' (map (read_directive (verilog_include_paths p)) (sources p))"
    by (simp add: yosys_import_sources_def includes_loop_eq reads_loop_eq)
  then show ?thesis by (simp add: read_directive_def)
qed

theorem yosys_import_sources_directives_witness:
  "yosys_import_sources
     \<lparr>device = ''ice40-up5k-sg48'', verilog_include_paths = [''inc'', ''rtl/inc''],
      sources = [(''top.v'', ''verilog'', ''work''), (''cpu.sv'', ''systemverilog'', ''work'')]\<rparr>
   = ''read_verilog -Iinc -Irtl/inc top.v\<newline>read_verilog -sv -Iinc -Irtl/inc cpu.sv''"
  using yosys_import_sources_directives[of
      "\<lparr>device = ''ice40-up5k-sg48'', verilog_include_paths = [''inc'', ''rtl/inc''],
        sources = [(''top.v'', ''verilog'', ''work''),
                   (''cpu.sv'', ''systemverilog'', ''work'')]\<rparr>"]
  by (simp add: read_directive_def)

subsection \<open>IO constraints\<close>

lemma pcf_bits_eq:
  "pcf_bits r sig n pins =
     r @ concat (map (\<lambda>i. ''set_io '' @ sig @ ''['' @ str_nat (n + i) @ ''] '' @ pins ! i
                        @ ''\<newline>'') [0..<length pins])"
proof (induction pins arbitrary: r n)
  case Nil
  then show ?case by simp
next
  case (Cons pin pins)
  have "[0..<length (pin # pins)] = 0 # map Suc [0..<length pins]"
    by (simp add: upt_conv_Cons map_Suc_upt del: upt_Suc)
  then show ?case
    by (simp add: Cons.IH comp_def del: upt_Suc)
qed

lemma signal_lines_text:
  "pins \<noteq> [] \<Longrightarrow>
   concat (map (\<lambda>l. l @ ''\<newline>'') (signal_lines (sig, pins, others, resname))) =
     (if length pins > 1 then pcf_bits [] sig 0 pins
      else ''set_io '' @ sig @ '' '' @ hd pins @ ''\<newline>'')"
  by (cases pins) (auto simp: signal_lines_def pcf_bits_eq comp_def simp del: upt_Suc)

lemma pcf_bits_acc: "pcf_bits r sig n pins = r @ pcf_bits [] sig n pins"
  by (simp add: pcf_bits_eq)

lemma pcf_signals_total:
  "\<forall>sc \<in> set scs. fst (snd sc) \<noteq> [] \<Longrightarrow>
   pcf_signals r scs =
     Inr (r @ concat (map (\<lambda>l. l @ ''\<newline>'') (concat (map signal_lines scs))))"
proof (induction scs arbitrary: r)
  case Nil
  then show ?case by simp
next
  case (Cons sc rest)
  obtain sig pins others resname where sc: "sc = (sig, pins, others, resname)"
    by (cases sc) auto
  from Cons.prems sc have ne: "pins \<noteq> []" by simp
  from Cons.prems have rest: "\<forall>sc \<in> set rest. fst (snd sc) \<noteq> []"
    by simp
  show ?case
  proof (cases "length pins > 1")
    case True
    then show ?thesis
      using sc ne Cons.IH[OF rest] signal_lines_text[OF ne, of sig others resname]
        pcf_bits_acc[of r sig 0 pins]
      by simp
  next
    case False
    with ne obtain pin where "pins = [pin]"
      by (cases pins) auto
    then show ?thesis
      using sc Cons.IH[OF rest] signal_lines_text[OF ne, of sig others resname]
      by simp
  qed
qed

lemma pcf_signals_partial:
  "\<exists>sc \<in> set scs. fst (snd sc) = [] \<Longrightarrow> pcf_signals r scs = Inl PinIndexError"
proof (induction scs arbitrary: r)
  case Nil
  then show ?case by simp
next
  case (Cons sc rest)
  obtain sig pins others resname where sc: "sc = (sig, pins, others, resname)"
    by (cases sc) auto
  show ?case
  proof (cases "pins = []")
    case True
    with sc show ?thesis by simp
  next
    case False
    with Cons.prems sc have "\<exists>sc \<in> set rest. fst (snd sc) = []"
      by auto
    from Cons.IH[OF this] sc False show ?thesis
      by (cases pins) auto
  qed
qed

text \<open>
  Claim C4, as amended. When every signal constraint has at least one pin, the emitter
  returns the lines of the signals in their order, each ended by a newline (for a
  signal with \<open>N > 1\<close> pins the \<open>N\<close> lines \<open>set_io name[i] pin\<close> with \<open>i\<close> from
  \<open>0\<close> to \<open>N - 1\<close> in the order of the pins, for a signal with one pin the one line
  \<open>set_io name pin\<close>), and after them, only when there are raw platform constraints,
  an empty line and those constraints as they are, in their order, with an empty line
  between two of them.
\<close>

theorem build_pcf_lines:
  assumes "\<forall>(sig, pins, others, resname) \<in> set scs. pins \<noteq> []"
  shows "build_pcf scs pcs =
           Inr (concat (map (\<lambda>l. l @ ''\<newline>'') (concat (map signal_lines scs)))
                @ (if pcs = [] then []
                   else ''\<newline>'' @ str_join ''\<newline>\<newline>'' pcs))
         \<and> (\<forall>(sig, pins, others, resname) \<in> set scs.
              (length pins > 1 \<longrightarrow>
                 signal_lines (sig, pins, others, resname) =
                   map (\<lambda>i. ''set_io '' @ sig @ ''['' @ str_nat i @ ''] '' @ pins ! i)
                     [0..<length pins])
              \<and> (\<forall>pin. pins = [pin] \<longrightarrow>
                   signal_lines (sig, pins, others, resname) = [''set_io '' @ sig @ '' '' @ pin]))"
proof -
  from assms have "\<forall>sc \<in> set scs. fst (snd sc) \<noteq> []"
    by (auto simp: case_prod_beta)
  from pcf_signals_total[OF this, of "[]"] show ?thesis
    by (auto simp: build_pcf_def signal_lines_def)
qed

theorem build_pcf_lines_witness:
  "list_all (\<lambda>(sig, pins, others, resname). pins \<noteq> [])
     [(''led'', [''A1''], (), ''user_led''), (''data'', [''B1'', ''B2''], (), ''bus'')]
   \<and> build_pcf [(''led'', [''A1''], (), ''user_led''), (''data'', [''B1'', ''B2''], (), ''bus'')]
       [''set_frequency clk 12'', ''set_io -nowarn x C1'']
     = Inr (''set_io led A1\<newline>set_io data[0] B1\<newline>set_io data[1] B2\<newline>''
            @ ''\<newline>set_frequency clk 12\<newline>\<newline>set_io -nowarn x C1'')"
proof -
  have h: "\<forall>(sig, pins, others, resname)
       \<in> set [(''led'', [''A1''], (), ''user_led''), (''data'', [''B1'', ''B2''], (), ''bus'')].
      pins \<noteq> []"
    by simp
  have n0: "str_nat 0 = ''0''" and n1: "str_nat (Suc 0) = ''1''"
    by (simp_all add: str_nat.simps)
  show ?thesis
    using build_pcf_lines[OF h, of "[''set_frequency clk 12'', ''set_io -nowarn x C1'']"] h
    by (simp add: signal_lines_def n0 n1 upt_rec)
qed

theorem build_pcf_lines_counterexample:
  "build_pcf [(''data'', [''B1'', ''B2''], (), ''bus''), (''nc'', [], (), ''spare'')] []
     = Inl PinIndexError
   \<and> build_pcf [(''data'', [''B1'', ''B2''], (), ''bus''), (''nc'', [], (), ''spare'')] []
     \<noteq> Inr ''set_io data[0] B1\<newline>set_io data[1] B2\<newline>''"
  by (simp add: build_pcf_def)

text \<open>
  Claim C9. The emitter raises \<open>IndexError\<close> exactly when some signal constraint has
  an empty pin list, whatever the other constraints are, and it returns a text exactly
  when every signal constraint has at least one pin.
\<close>

theorem build_pcf_partial:
  "((\<exists>(sig, pins, others, resname) \<in> set scs. pins = [])
      \<longrightarrow> build_pcf scs pcs = Inl PinIndexError
          \<and> class_of PinIndexError = IndexError)
   \<and> ((\<exists>r. build_pcf scs pcs = Inr r)
        \<longleftrightarrow> (\<forall>(sig, pins, others, resname) \<in> set scs. pins \<noteq> []))"
proof -
  have a: "build_pcf scs pcs = Inl PinIndexError"
    if "\<exists>(sig, pins, others, resname) \<in> set scs. pins = []"
  proof -
    from that have "\<exists>sc \<in> set scs. fst (snd sc) = []"
      by (auto simp: case_prod_beta)
    from pcf_signals_partial[OF this, of "[]"] show ?thesis
      by (simp add: build_pcf_def)
  qed
  have b: "\<exists>r. build_pcf scs pcs = Inr r"
    if "\<forall>(sig, pins, others, resname) \<in> set scs. pins \<noteq> []"
  proof -
    from that have "\<forall>sc \<in> set scs. fst (snd sc) \<noteq> []"
      by (auto simp: case_prod_beta)
    from pcf_signals_total[OF this, of "[]"] show ?thesis
      by (simp add: build_pcf_def)
  qed
  have c: "\<forall>(sig, pins, others, resname) \<in> set scs. pins \<noteq> []"
    if "\<exists>r. build_pcf scs pcs = Inr r"
  proof (rule ccontr)
    assume "\<not> (\<forall>(sig, pins, others, resname) \<in> set scs. pins \<noteq> [])"
    then have "\<exists>(sig, pins, others, resname) \<in> set scs. pins = []"
      by (auto simp: case_prod_beta)
    from a[OF this] that show False by simp
  qed
  from a b c show ?thesis by auto
qed

theorem build_pcf_partial_witness:
  "(\<exists>(sig, pins, others, resname) \<in> set [(''nc'', [], (), ''spare'')]. pins = [])
   \<and> build_pcf [(''nc'', [], (), ''spare'')] [] = Inl PinIndexError
   \<and> list_all (\<lambda>(sig, pins, others, resname). pins \<noteq> [])
       [(''led'', [''A1''], (), ''user_led'')]
   \<and> (\<exists>r. build_pcf [(''led'', [''A1''], (), ''user_led'')] [] = Inr r)"
  using build_pcf_partial[of "[(''nc'', [], (), ''spare'')]" "[]"]
    build_pcf_partial[of "[(''led'', [''A1''], (), ''user_led'')]" "[]"]
  by simp


subsection \<open>Timing constraints\<close>

lemma period_quotient_ok:
  "period \<noteq> PyInt 0 \<Longrightarrow> period \<noteq> PyFloat 0 \<Longrightarrow> \<not> beyond_float_range period \<Longrightarrow>
   period_quotient py period = Inr (quotient_text py period)"
  by (cases period) (auto simp: period_quotient_def quotient_text_def)

lemma pre_pack_loop_total:
  "\<forall>item \<in> set clks. snd item \<noteq> PyInt 0 \<and> snd item \<noteq> PyFloat 0
      \<and> \<not> beyond_float_range (snd item) \<Longrightarrow>
   pre_pack_loop py gn r clks =
     Inr (r @ concat (map (\<lambda>item. clock_line py gn item @ ''\<newline>'') clks))"
proof (induction clks arbitrary: r)
  case Nil
  then show ?case by simp
next
  case (Cons item rest)
  obtain clk period where item: "item = (clk, period)"
    by (cases item) auto
  from Cons.prems item have "period_quotient py period = Inr (quotient_text py period)"
    by (intro period_quotient_ok) simp_all
  moreover from Cons.prems have "\<forall>item \<in> set rest. snd item \<noteq> PyInt 0
      \<and> snd item \<noteq> PyFloat 0 \<and> \<not> beyond_float_range (snd item)"
    by simp
  ultimately show ?case
    using Cons.IH item by (simp add: clock_line_def)
qed

text \<open>
  Claim C5, as amended. When no period is zero and no period is an int beyond the float
  range, the clock emitter returns one line per entry of the clock dictionary, in the
  order of the dictionary; the line is \<open>ctx.addClock("name", f)\<close> with the resolved
  name of the clock and, for a finite period, the text of the float nearest to
  \<open>1000 / period\<close> (an int period is made a float first, which is exact up to 53
  bits); for an infinite period the text is a zero and for not-a-number it is \<open>nan\<close>.
  The order of the dictionary is the order in which the clocks were first constrained:
  \<open>add_period_constraint\<close> puts a new clock after the ones that are there and leaves a
  clock that is there in its place.
\<close>

theorem build_pre_pack_lines:
  assumes "\<forall>(clk, period) \<in> set clks.
             period \<noteq> PyInt 0 \<and> period \<noteq> PyFloat 0 \<and> \<not> beyond_float_range period"
  shows "build_pre_pack py get_name clks =
           Inr (concat (map (\<lambda>item. clock_line py get_name item @ ''\<newline>'') clks))
         \<and> clock_line py get_name (c, PyFloat x) =
             ''ctx.addClock('' @ dq @ get_name c @ dq @ '', '' @ float_str py (1000 / x)
               @ '')''
         \<and> clock_line py get_name (c, PyInt i) =
             ''ctx.addClock('' @ dq @ get_name c @ dq @ '', ''
               @ float_str py (1000 / py_float py i) @ '')''
         \<and> (abs i \<le> 2 ^ 53 \<longrightarrow> py_float py i = of_int i)
         \<and> clock_line py get_name (c, PyInf True) =
             ''ctx.addClock('' @ dq @ get_name c @ dq @ '', 0.0)''
         \<and> clock_line py get_name (c, PyInf False) =
             ''ctx.addClock('' @ dq @ get_name c @ dq @ '', -0.0)''
         \<and> clock_line py get_name (c, PyNaN) =
             ''ctx.addClock('' @ dq @ get_name c @ dq @ '', nan)''
         \<and> map fst (clocks (snd (add_period_constraint self k q))) =
             (if map_of (clocks self) k = None then map fst (clocks self) @ [k]
              else map fst (clocks self))"
proof -
  from assms have "\<forall>item \<in> set clks. snd item \<noteq> PyInt 0 \<and> snd item \<noteq> PyFloat 0
      \<and> \<not> beyond_float_range (snd item)"
    by (auto simp: case_prod_beta)
  from pre_pack_loop_total[OF this, of py get_name "[]"]
  have "build_pre_pack py get_name clks =
           Inr (concat (map (\<lambda>item. clock_line py get_name item @ ''\<newline>'') clks))"
    by (simp add: build_pre_pack_def)
  moreover have "map fst (clocks (snd (add_period_constraint self k q))) =
             (if map_of (clocks self) k = None then map fst (clocks self) @ [k]
              else map fst (clocks self))"
    by (auto simp: add_period_constraint_def Let_def keys_dict_set dict_set_same
        split: option.splits)
  ultimately show ?thesis
    by (simp add: clock_line_def quotient_text_def py_float_def)
qed

theorem build_pre_pack_lines_witness:
  "list_all (\<lambda>(clk, period).
       period \<noteq> PyInt 0 \<and> period \<noteq> PyFloat 0 \<and> \<not> beyond_float_range period)
     [(''sys_clk'', PyFloat 10), (''usb_clk'', PyInt 20)]
   \<and> build_pre_pack demo_python id [(''sys_clk'', PyFloat 10), (''usb_clk'', PyInt 20)] =
       Inr (''ctx.addClock('' @ dq @ ''sys_clk'' @ dq @ '', 100.0)\<newline>''
            @ ''ctx.addClock('' @ dq @ ''usb_clk'' @ dq @ '', 50.0)\<newline>'')"
proof -
  have h: "\<forall>(clk, period) \<in> set [(''sys_clk'', PyFloat 10), (''usb_clk'', PyInt 20)].
      period \<noteq> PyInt 0 \<and> period \<noteq> PyFloat 0 \<and> \<not> beyond_float_range period"
    by (simp add: fits_float_def)
  have f1: "whole_float_str (1000 / 10) = ''100.0''"
    by code_simp
  have f2: "whole_float_str (1000 / 20) = ''50.0''"
    by code_simp
  show ?thesis
    using build_pre_pack_lines[OF h, THEN conjunct1, of demo_python id] h f1 f2
    by (simp add: clock_line_def quotient_text_def py_float_def demo_python_def
        fits_float_def)
qed

theorem build_pre_pack_lines_counterexample:
  "build_pre_pack demo_python id [(''sys_clk'', PyInt 0)] = Inl PeriodZeroDivision
   \<and> class_of PeriodZeroDivision = ZeroDivisionError
   \<and> PyInt (2 ^ 1024) \<noteq> PyInt 0
   \<and> build_pre_pack demo_python id [(''sys_clk'', PyInt (2 ^ 1024))] = Inl FloatOverflow
   \<and> class_of FloatOverflow = OverflowError"
  by (simp add: build_pre_pack_def period_quotient_def fits_float_def)

subsection \<open>Keyword formatting\<close>

lemma format_scan_char:
  "c \<noteq> CHR ''{'' \<Longrightarrow> c \<noteq> CHR ''}'' \<Longrightarrow>
   format_scan kw None (c # cs) = map_option (map_sum id ((#) c)) (format_scan kw None cs)"
  by (cases cs) auto

lemma map_sum_Inr_iff: "map_sum f g x = Inr b \<longleftrightarrow> (\<exists>a. x = Inr a \<and> b = g a)"
  by (cases x) auto

lemma format_scan_append_ok:
  "format_scan kw None t = Some (Inr b) \<Longrightarrow> format_scan kw m s = Some (Inr a) \<Longrightarrow>
   format_scan kw m (s @ t) = Some (Inr (a @ b))"
proof (induction kw m s arbitrary: a rule: format_scan.induct)
  case (1 kw)
  then show ?case by simp
next
  case (2 kw acc)
  then show ?case by simp
next
  case (3 kw c)
  then show ?case
    by (auto simp: format_scan_char split: if_splits)
next
  case (4 kw c d ds)
  then show ?case
    by (auto simp: map_sum_Inr_iff split: if_splits)
next
  case (5 kw acc c cs)
  then show ?case
    by (auto simp: map_sum_Inr_iff split: if_splits sum.splits option.splits)
qed

lemma format_scan_beyond_append:
  "format_scan kw m s = None \<Longrightarrow> format_scan kw m (s @ t) = None"
proof (induction kw m s rule: format_scan.induct)
  case (1 kw)
  then show ?case by simp
next
  case (2 kw acc)
  then show ?case by simp
next
  case (3 kw c)
  then show ?case
    by (auto split: if_splits)
next
  case (4 kw c d ds)
  then show ?case
    by (auto split: if_splits)
next
  case (5 kw acc c cs)
  then show ?case
    by (auto split: if_splits sum.splits option.splits)
qed

text \<open>
  A template that formats keeps formatting when a text that the scanner reads is put
  after it, and the result is the two results one after the other: for a template that
  the scanner reads this is proved, for another one it is what is asked of
  \<open>format_other\<close>.
\<close>

lemma format_str_append_ok:
  assumes "\<forall>s l. format_other py kw s = Inr l \<longrightarrow> format_other py kw (s @ t) = Inr (l @ b)"
    and "format_scan kw None t = Some (Inr b)"
    and "format_str py kw s = Inr a"
  shows "format_str py kw (s @ t) = Inr (a @ b)"
proof (cases "format_scan kw None s")
  case None
  with assms(3) have "format_other py kw s = Inr a"
    by (simp add: format_str_def)
  with assms(1) have "format_other py kw (s @ t) = Inr (a @ b)"
    by simp
  moreover from None have "format_scan kw None (s @ t) = None"
    by (rule format_scan_beyond_append)
  ultimately show ?thesis
    by (simp add: format_str_def)
next
  case (Some r)
  with assms(3) have "format_scan kw None s = Some (Inr a)"
    by (simp add: format_str_def)
  from format_scan_append_ok[OF assms(2) this] show ?thesis
    by (simp add: format_str_def)
qed

lemma format_fail_stmt:
  "format_scan (script_kw bn a p ts il fl seed) None ''{fail_stmt}\<newline>''
     = Some (Inr (fl @ ''\<newline>''))"
  by (simp add: script_kw_def field_value_def special_chars_def digit_chars_def)

text \<open>The example \<open>format_empty_spec\<close> is such a \<open>format_other\<close>.\<close>

lemma drop_empty_spec_append:
  "d0 \<noteq> CHR ''}'' \<Longrightarrow>
   drop_empty_spec (s @ d0 # t) = drop_empty_spec s @ drop_empty_spec (d0 # t)"
  by (induction s rule: drop_empty_spec.induct) auto

lemma format_empty_spec_append:
  assumes "format_scan kw None (CHR ''{'' # t) = Some (Inr b)"
    and "drop_empty_spec (CHR ''{'' # t) = CHR ''{'' # t"
    and "format_empty_spec kw s = Inr l"
  shows "format_empty_spec kw (s @ CHR ''{'' # t) = Inr (l @ b)"
proof -
  from assms(3) have "format_scan kw None (drop_empty_spec s) = Some (Inr l)"
    by (auto simp: format_empty_spec_def split: option.splits)
  from format_scan_append_ok[OF assms(1) this] show ?thesis
    using assms(2) by (simp add: format_empty_spec_def drop_empty_spec_append)
qed

subsection \<open>Build script\<close>

lemma script_loop_ok:
  "list_all2 (\<lambda>s l. format_str py kw s = Inr l) tpl ls \<Longrightarrow>
   \<forall>s l. format_other py kw s = Inr l \<longrightarrow>
     format_other py kw (s @ ''{fail_stmt}\<newline>'') = Inr (l @ sfx) \<Longrightarrow>
   format_scan kw None ''{fail_stmt}\<newline>'' = Some (Inr sfx) \<Longrightarrow>
   script_loop py kw c tpl = Inr (c @ concat (map (\<lambda>l. l @ sfx) ls))"
proof (induction tpl ls arbitrary: c rule: list_all2_induct)
  case Nil
  then show ?case by simp
next
  case (Cons s tpl l ls)
  from Cons.prems(1,2) Cons.hyps(1)
  have "format_str py kw (s @ ''{fail_stmt}\<newline>'') = Inr (l @ sfx)"
    by (rule format_str_append_ok)
  then show ?case
    using Cons.IH[OF Cons.prems] by simp
qed

lemma script_loop_fail:
  "\<exists>s \<in> set tpl. isl (format_str py kw (s @ ''{fail_stmt}\<newline>'')) \<Longrightarrow>
   isl (script_loop py kw c tpl)"
proof (induction tpl arbitrary: c)
  case Nil
  then show ?case by simp
next
  case (Cons s tpl)
  then show ?case
    by (cases "format_str py kw (s @ ''{fail_stmt}\<newline>'')") auto
qed

text \<open>
  Claim C7, as amended. When every line of the template is formatted without an
  exception, the script is written under the name \<open>build_<build_name>\<close> with the
  extension of the branch, that name is returned, and the text is: on the POSIX branch
  the comment with the revision, the line \<open>set -e\<close>, and the formatted lines each
  followed by a newline only; on the Windows and Cygwin branch \<open>@echo off\<close>, the
  \<open>rem\<close> line with the revision, an empty line, and the formatted lines each followed
  by \<open> || exit /b\<close> and a newline, with no \<open>set -e\<close> line. When the formatting of a
  line raises, nothing is written and no name is returned.

  The code puts the placeholder \<open>{fail_stmt}\<close> and a newline after each line and
  formats the two together. The second assumption is the property of \<open>str.format\<close>
  that makes this the formatted line followed by the suffix, for the templates that are
  left to \<open>format_other\<close>; for the templates that the scanner reads it is proved.
\<close>

theorem build_script_os_branch:
  assumes "list_all2
             (\<lambda>s l. format_str py (script_kw bn a p ts il (fail_stmt h) seed) s = Inr l)
             tpl ls"
    and "\<forall>s l. format_other py (script_kw bn a p ts il (fail_stmt h) seed) s = Inr l \<longrightarrow>
           format_other py (script_kw bn a p ts il (fail_stmt h) seed)
             (s @ ''{fail_stmt}\<newline>'') = Inr (l @ fail_stmt h @ ''\<newline>'')"
  shows "(\<not> is_windows h \<longrightarrow>
            build_script py h tpl bn a p ts il seed w =
              (Inr (''build_'' @ bn @ ''.sh''),
               write_to_file (''build_'' @ bn @ ''.sh'')
                 (''# Autogenerated by LiteX / git: '' @ litex_git_revision h
                    @ ''\<newline>set -e\<newline>'' @ concat (map (\<lambda>l. l @ ''\<newline>'') ls))
                 (Some False) w))
         \<and> (is_windows h \<longrightarrow>
              build_script py h tpl bn a p ts il seed w =
                (Inr (''build_'' @ bn @ ''.bat''),
                 write_to_file (''build_'' @ bn @ ''.bat'')
                   (''@echo off\<newline>rem Autogenerated by LiteX / git: ''
                      @ litex_git_revision h @ ''\<newline>\<newline>''
                      @ concat (map (\<lambda>l. l @ '' || exit /b\<newline>'') ls))
                   (Some False) w))
         \<and> ((\<exists>s \<in> set tpl'.
                isl (format_str py (script_kw bn a p ts il (fail_stmt h) seed)
                       (s @ ''{fail_stmt}\<newline>'')))
              \<longrightarrow> isl (fst (build_script py h tpl' bn a p ts il seed w))
                  \<and> snd (build_script py h tpl' bn a p ts il seed w) = w)"
proof -
  have ok: "script_loop py (script_kw bn a p ts il (fail_stmt h) seed) (script_header h) tpl =
      Inr (script_header h @ concat (map (\<lambda>l. l @ fail_stmt h @ ''\<newline>'') ls))"
    using script_loop_ok[OF assms format_fail_stmt] .
  have bad: "isl (fst (build_script py h tpl' bn a p ts il seed w))
      \<and> snd (build_script py h tpl' bn a p ts il seed w) = w"
    if "\<exists>s \<in> set tpl'. isl (format_str py (script_kw bn a p ts il (fail_stmt h) seed)
                       (s @ ''{fail_stmt}\<newline>''))"
    using script_loop_fail[OF that, of "script_header h"]
    by (auto simp: build_script_def split: sum.splits)
  from ok bad show ?thesis
    by (auto simp: build_script_def Let_def script_header_def script_ext_def fail_stmt_def)
qed

theorem build_script_os_branch_witness:
  "list_all2
     (\<lambda>s l. format_str demo_python
               (script_kw ''top'' ''up5k'' ''sg48'' False False (fail_stmt windows_host) 1)
               s = Inr l)
     [''icepack -s {build_name}.txt {build_name}.bin'', ''echo {seed:}'']
     [''icepack -s top.txt top.bin'', ''echo 1'']
   \<and> is_windows windows_host
   \<and> build_script demo_python windows_host
       [''icepack -s {build_name}.txt {build_name}.bin'', ''echo {seed:}''] ''top''
       ''up5k'' ''sg48'' False False 1 demo_world =
       (Inr ''build_top.bat'',
        write_to_file ''build_top.bat''
          (''@echo off\<newline>rem Autogenerated by LiteX / git: 0123abc\<newline>\<newline>''
             @ ''icepack -s top.txt top.bin || exit /b\<newline>echo 1 || exit /b\<newline>'')
          (Some False) demo_world)
   \<and> list_all2
     (\<lambda>s l. format_str demo_python
               (script_kw ''top'' ''up5k'' ''sg48'' False False (fail_stmt posix_host) 1)
               s = Inr l)
     [''icepack -s {build_name}.txt {build_name}.bin'', ''echo {seed:}'']
     [''icepack -s top.txt top.bin'', ''echo 1'']
   \<and> \<not> is_windows posix_host
   \<and> build_script demo_python posix_host
       [''icepack -s {build_name}.txt {build_name}.bin'', ''echo {seed:}''] ''top''
       ''up5k'' ''sg48'' False False 1 demo_world =
       (Inr ''build_top.sh'',
        write_to_file ''build_top.sh''
          (''# Autogenerated by LiteX / git: 0123abc\<newline>set -e\<newline>''
             @ ''icepack -s top.txt top.bin\<newline>echo 1\<newline>'')
          (Some False) demo_world)
   \<and> (\<exists>s \<in> set [''{foo}''].
         isl (format_str demo_python
                (script_kw ''top'' ''up5k'' ''sg48'' False False (fail_stmt posix_host) 1)
                (s @ ''{fail_stmt}\<newline>'')))
   \<and> isl (fst (build_script demo_python posix_host [''{foo}''] ''top'' ''up5k'' ''sg48''
                 False False 1 demo_world))
   \<and> snd (build_script demo_python posix_host [''{foo}''] ''top'' ''up5k'' ''sg48''
            False False 1 demo_world) = demo_world"
proof -
  have h: "list_all2
     (\<lambda>s l. format_str demo_python
               (script_kw ''top'' ''up5k'' ''sg48'' False False (fail_stmt windows_host) 1)
               s = Inr l)
     [''icepack -s {build_name}.txt {build_name}.bin'', ''echo {seed:}'']
     [''icepack -s top.txt top.bin'', ''echo 1'']"
    by code_simp
  have h': "list_all2
     (\<lambda>s l. format_str demo_python
               (script_kw ''top'' ''up5k'' ''sg48'' False False (fail_stmt posix_host) 1)
               s = Inr l)
     [''icepack -s {build_name}.txt {build_name}.bin'', ''echo {seed:}'']
     [''icepack -s top.txt top.bin'', ''echo 1'']"
    by code_simp
  have o: "\<forall>s l. format_other demo_python (script_kw bn a p ts il fl seed) s = Inr l \<longrightarrow>
           format_other demo_python (script_kw bn a p ts il fl seed)
             (s @ ''{fail_stmt}\<newline>'') = Inr (l @ fl @ ''\<newline>'')"
    for bn a p ts il fl seed
    using format_empty_spec_append[OF format_fail_stmt]
    by (simp add: demo_python_def)
  have w: "is_windows windows_host"
    by (simp add: is_windows_def windows_host_def posix_host_def)
  have w': "\<not> is_windows posix_host"
    by (simp add: is_windows_def posix_host_def)
  have r: "litex_git_revision windows_host = ''0123abc''"
    by (simp add: windows_host_def posix_host_def)
  have r': "litex_git_revision posix_host = ''0123abc''"
    by (simp add: posix_host_def)
  have bad: "\<exists>s \<in> set [''{foo}''].
         isl (format_str demo_python
                (script_kw ''top'' ''up5k'' ''sg48'' False False (fail_stmt posix_host) 1)
                (s @ ''{fail_stmt}\<newline>''))"
    by (simp add: format_str_def script_kw_def field_value_def special_chars_def
        digit_chars_def)
  have win: "build_script demo_python windows_host
       [''icepack -s {build_name}.txt {build_name}.bin'', ''echo {seed:}''] ''top''
       ''up5k'' ''sg48'' False False 1 demo_world =
       (Inr ''build_top.bat'',
        write_to_file ''build_top.bat''
          (''@echo off\<newline>rem Autogenerated by LiteX / git: 0123abc\<newline>\<newline>''
             @ ''icepack -s top.txt top.bin || exit /b\<newline>echo 1 || exit /b\<newline>'')
          (Some False) demo_world)"
    using build_script_os_branch[OF h o, of demo_world] w r by simp
  have posix: "build_script demo_python posix_host
       [''icepack -s {build_name}.txt {build_name}.bin'', ''echo {seed:}''] ''top''
       ''up5k'' ''sg48'' False False 1 demo_world =
       (Inr ''build_top.sh'',
        write_to_file ''build_top.sh''
          (''# Autogenerated by LiteX / git: 0123abc\<newline>set -e\<newline>''
             @ ''icepack -s top.txt top.bin\<newline>echo 1\<newline>'')
          (Some False) demo_world)"
    using build_script_os_branch[OF h' o, of demo_world] w' r' by simp
  have fails: "isl (fst (build_script demo_python posix_host [''{foo}''] ''top'' ''up5k''
                 ''sg48'' False False 1 demo_world))
   \<and> snd (build_script demo_python posix_host [''{foo}''] ''top'' ''up5k'' ''sg48''
            False False 1 demo_world) = demo_world"
    using build_script_os_branch[OF h' o, where tpl' = "[''{foo}'']" and w = demo_world] bad
    by blast
  from h h' w w' bad win posix fails show ?thesis
    by blast
qed

theorem build_script_os_branch_counterexample:
  "build_script demo_python posix_host [''{foo}''] ''top'' ''up5k'' ''sg48'' False False 1
     demo_world =
     (Inl (FormatKeyError ''foo''), demo_world)
   \<and> class_of (FormatKeyError ''foo'') = KeyError"
  by (simp add: build_script_def format_str_def script_kw_def field_value_def
      special_chars_def digit_chars_def)

subsection \<open>The flags of the build script\<close>
















subsection \<open>The working directory of the build\<close>

lemma build_yosys_cwd: "build_yosys py t p bn so w = (r, w') \<Longrightarrow> cwd w' = cwd w"
  by (auto simp: build_yosys_def write_to_file_def emit_def split: sum.splits)

lemma build_script_cwd:
  "build_script py h t bn a p ts il seed w = (r, w') \<Longrightarrow> cwd w' = cwd w"
  by (auto simp: build_script_def write_to_file_def emit_def Let_def split: sum.splits)

lemma run_script_cwd: "run_script h s w = (r, w') \<Longrightarrow> cwd w' = cwd w"
  by (auto simp: run_script_def emit_def Let_def split: if_splits)

lemma os_chdir_result:
  "os_chdir h path w = (r, w') \<Longrightarrow>
   (case r of Inl e \<Rightarrow> chdir h w path = Inl e \<and> w' = w
    | Inr u \<Rightarrow> chdir h w path = Inr (cwd w'))"
  by (auto simp: os_chdir_def split: sum.splits)

lemma enter_build_dir_result:
  "enter_build_dir h build_dir w = (r, w1) \<Longrightarrow>
   (case r of Inl e \<Rightarrow> cwd w1 = cwd w
    | Inr saved \<Rightarrow>
        saved = cwd w
        \<and> chdir h (emit (Makedirs (cwd w) build_dir) w) build_dir = Inr (cwd w1))"
  by (auto simp: enter_build_dir_def os_makedirs_def os_getcwd_def os_chdir_def emit_def
      split: sum.splits option.splits prod.splits)

lemma build_enter_fails:
  "enter_build_dir h build_dir w = (Inl e, w1) \<Longrightarrow>
   build py h self p v build_dir bn so run ts il seed w = (Inl e, w1)"
  by (simp add: build_def)

lemma build_after_enter:
  assumes "enter_build_dir h build_dir w = (Inr saved, w1)"
    and "build py h self p v build_dir bn so run ts il seed w = (r, w')"
  shows "case r of Inl e \<Rightarrow> cwd w' = cwd w1
         | Inr n \<Rightarrow> \<exists>w8. cwd w8 = cwd w1 \<and> chdir h w8 saved = Inr (cwd w')"
  using assms(2) unfolding build_def Let_def assms(1)
  by (auto simp: write_to_file_def emit_def
      split: sum.splits prod.splits if_splits
      dest!: build_yosys_cwd build_script_cwd run_script_cwd os_chdir_result)

text \<open>
  Claim C1, as amended. When creating the build directory, reading the working
  directory or changing to the build directory raises, \<open>build\<close> raises that exception
  and the working directory is as it was. Otherwise the saved directory is the one
  \<open>build\<close> was called in, and:
  \<^item> when a later step raises (the validation of the device string, the check for
    the tools, the run of the script, or any of the others) the exception leaves
    \<open>build\<close> with the working directory still the build directory;
  \<^item> when \<open>build\<close> returns a result, its last step has changed from the build
    directory to the saved path, and the working directory is where that leads: the
    directory \<open>build\<close> was called in, when its path still leads to it.
\<close>

theorem build_restores_cwd_on_success_only:
  assumes "build py h self p v build_dir build_name synth_opts run timingstrict
             ignoreloops seed w = (r, w')"
  shows "(\<forall>e w1. enter_build_dir h build_dir w = (Inl e, w1) \<longrightarrow>
            r = Inl e \<and> cwd w' = cwd w)
         \<and> (\<forall>saved w1. enter_build_dir h build_dir w = (Inr saved, w1) \<longrightarrow>
              saved = cwd w
              \<and> chdir h (emit (Makedirs (cwd w) build_dir) w) build_dir = Inr (cwd w1)
              \<and> (\<forall>e. r = Inl e \<longrightarrow> cwd w' = cwd w1)
              \<and> (\<forall>n. r = Inr n \<longrightarrow>
                    (\<exists>w8. cwd w8 = cwd w1 \<and> chdir h w8 (cwd w) = Inr (cwd w'))))
         \<and> ((\<forall>w8 d. chdir h w8 (cwd w) = Inr d \<longrightarrow> d = cwd w) \<longrightarrow>
              (\<forall>n. r = Inr n \<longrightarrow> cwd w' = cwd w))"
proof -
  have a: "r = Inl e \<and> cwd w' = cwd w"
    if f: "enter_build_dir h build_dir w = (Inl e, w1)" for e w1
    using build_enter_fails[OF f, of py self p v build_name synth_opts run timingstrict
        ignoreloops seed] enter_build_dir_result[OF f] assms
    by simp
  have b: "saved = cwd w
      \<and> chdir h (emit (Makedirs (cwd w) build_dir) w) build_dir = Inr (cwd w1)
      \<and> (\<forall>e. r = Inl e \<longrightarrow> cwd w' = cwd w1)
      \<and> (\<forall>n. r = Inr n \<longrightarrow>
            (\<exists>w8. cwd w8 = cwd w1 \<and> chdir h w8 (cwd w) = Inr (cwd w')))"
    if e: "enter_build_dir h build_dir w = (Inr saved, w1)" for saved w1
  proof -
    from enter_build_dir_result[OF e]
    have s: "saved = cwd w"
      and c: "chdir h (emit (Makedirs (cwd w) build_dir) w) build_dir = Inr (cwd w1)"
      by simp_all
    from build_after_enter[OF e assms] s
    have "(\<forall>e. r = Inl e \<longrightarrow> cwd w' = cwd w1)
      \<and> (\<forall>n. r = Inr n \<longrightarrow>
            (\<exists>w8. cwd w8 = cwd w1 \<and> chdir h w8 (cwd w) = Inr (cwd w')))"
      by (cases r) auto
    with s c show ?thesis
      by simp
  qed
  have c: "cwd w' = cwd w"
    if leads: "\<forall>w8 d. chdir h w8 (cwd w) = Inr d \<longrightarrow> d = cwd w" and n: "r = Inr n" for n
  proof -
    obtain x w1 where e: "enter_build_dir h build_dir w = (x, w1)"
      by (cases "enter_build_dir h build_dir w") auto
    show ?thesis
    proof (cases x)
      case (Inl err)
      with a[of err w1] e n show ?thesis
        by simp
    next
      case (Inr saved)
      with b[of saved w1] e n obtain w8 where "chdir h w8 (cwd w) = Inr (cwd w')"
        by auto
      with leads show ?thesis
        by auto
    qed
  qed
  from a b c show ?thesis
    by blast
qed

theorem build_restores_cwd_on_success_only_witness:
  "\<not> isl (fst (build demo_python posix_host demo_toolchain demo_platform
               demo_elaboration ''build'' ''top'' [] True False False 1 demo_world))
   \<and> cwd (snd (build demo_python posix_host demo_toolchain demo_platform
                demo_elaboration ''build'' ''top'' [] True False False 1 demo_world))
       = ''/home/user''
   \<and> isl (fst (build demo_python host_without_tools demo_toolchain demo_platform
                demo_elaboration ''build'' ''top'' [] True False False 1 demo_world))
   \<and> cwd (snd (build demo_python host_without_tools demo_toolchain demo_platform
                demo_elaboration ''build'' ''top'' [] True False False 1 demo_world))
       = ''/home/user/build''
   \<and> fst (build demo_python posix_host demo_toolchain demo_platform
            demo_elaboration [] ''top'' [] True False False 1 demo_world)
       = Inl (FileSystemError ''FileNotFoundError'')
   \<and> cwd (snd (build demo_python posix_host demo_toolchain demo_platform
                demo_elaboration [] ''top'' [] True False False 1 demo_world))
       = ''/home/user''"
proof -
  let ?w1 = "\<lparr>cwd = ''/home/user/build'', effects = [Makedirs ''/home/user'' ''build'']\<rparr>"
  have e1: "enter_build_dir posix_host ''build'' demo_world = (Inr ''/home/user'', ?w1)"
    by (simp add: enter_build_dir_def os_makedirs_def os_getcwd_def os_chdir_def emit_def
        posix_host_def demo_world_def)
  have e2: "enter_build_dir host_without_tools ''build'' demo_world
      = (Inr ''/home/user'', ?w1)"
    by (simp add: enter_build_dir_def os_makedirs_def os_getcwd_def os_chdir_def emit_def
        host_without_tools_def posix_host_def demo_world_def)
  have e3: "enter_build_dir posix_host [] demo_world
      = (Inl (FileSystemError ''FileNotFoundError''),
         \<lparr>cwd = ''/home/user'', effects = [Makedirs ''/home/user'' []]\<rparr>)"
    by (simp add: enter_build_dir_def os_makedirs_def emit_def posix_host_def
        demo_world_def)
  have ok: "\<not> isl (fst (build demo_python posix_host demo_toolchain demo_platform
               demo_elaboration ''build'' ''top'' [] True False False 1 demo_world))"
    by code_simp
  have bad: "isl (fst (build demo_python host_without_tools demo_toolchain demo_platform
                demo_elaboration ''build'' ''top'' [] True False False 1 demo_world))"
    by code_simp
  obtain r1 w1 where b1: "build demo_python posix_host demo_toolchain demo_platform
      demo_elaboration ''build'' ''top'' [] True False False 1 demo_world = (r1, w1)"
    by (cases "build demo_python posix_host demo_toolchain demo_platform
      demo_elaboration ''build'' ''top'' [] True False False 1 demo_world") auto
  obtain r2 w2 where b2: "build demo_python host_without_tools demo_toolchain demo_platform
      demo_elaboration ''build'' ''top'' [] True False False 1 demo_world = (r2, w2)"
    by (cases "build demo_python host_without_tools demo_toolchain demo_platform
      demo_elaboration ''build'' ''top'' [] True False False 1 demo_world") auto
  obtain r3 w3 where b3: "build demo_python posix_host demo_toolchain demo_platform
      demo_elaboration [] ''top'' [] True False False 1 demo_world = (r3, w3)"
    by (cases "build demo_python posix_host demo_toolchain demo_platform
      demo_elaboration [] ''top'' [] True False False 1 demo_world") auto
  from ok b1 obtain n where n: "r1 = Inr n"
    by (cases r1) auto
  have leads: "\<forall>w8 d. chdir posix_host w8 (cwd demo_world) = Inr d
      \<longrightarrow> d = cwd demo_world"
    by (simp add: posix_host_def demo_world_def)
  from build_restores_cwd_on_success_only[OF b1, THEN conjunct2, THEN conjunct2] leads n
  have c1: "cwd w1 = ''/home/user''"
    by (simp add: demo_world_def)
  from bad b2 obtain x where x: "r2 = Inl x"
    by (cases r2) auto
  from build_restores_cwd_on_success_only[OF b2, THEN conjunct2, THEN conjunct1] e2
  have "\<forall>e. r2 = Inl e \<longrightarrow> cwd w2 = cwd ?w1"
    by blast
  with x have c2: "cwd w2 = ''/home/user/build''"
    by simp
  from build_restores_cwd_on_success_only[OF b3, THEN conjunct1] e3
  have c3: "r3 = Inl (FileSystemError ''FileNotFoundError'') \<and> cwd w3 = ''/home/user''"
    by (simp add: demo_world_def)
  from ok bad b1 b2 b3 c1 c2 c3 show ?thesis
    by simp
qed

theorem build_restores_cwd_on_success_only_counterexample:
  "cwd demo_world = ''/home/user''
   \<and> projl (fst (build demo_python host_without_tools demo_toolchain demo_platform
                  demo_elaboration ''build'' ''top'' [] True False False 1 demo_world))
       = ToolchainNotFound
   \<and> cwd (snd (build demo_python host_without_tools demo_toolchain demo_platform
                demo_elaboration ''build'' ''top'' [] True False False 1 demo_world))
       = ''/home/user/build''
   \<and> projl (fst (build demo_python host_failing_script demo_toolchain demo_platform
                  demo_elaboration ''build'' ''top'' [] True False False 1 demo_world))
       = ScriptFailed
   \<and> cwd (snd (build demo_python host_failing_script demo_toolchain demo_platform
                demo_elaboration ''build'' ''top'' [] True False False 1 demo_world))
       = ''/home/user/build''
   \<and> projl (fst (build demo_python posix_host demo_toolchain
                  (demo_platform\<lparr>device := ''ice40-up5k''\<rparr>)
                  demo_elaboration ''build'' ''top'' [] True False False 1 demo_world))
       = UnpackMismatch 2
   \<and> cwd (snd (build demo_python posix_host demo_toolchain
                (demo_platform\<lparr>device := ''ice40-up5k''\<rparr>)
                demo_elaboration ''build'' ''top'' [] True False False 1 demo_world))
       = ''/home/user/build''"
  by code_simp


end
